theory Spec2Isabelle
  imports Complex_Main
begin

section \<open>Data model\<close>

text \<open>
  A row of the pandas data frame that \<open>movie_randomizer.py\<close> works on. A cell of a
  pandas column can be missing (NaN); a missing cell, and a cell of a column the frame
  does not have, is \<open>None\<close>. The demo rows have no \<open>movieId\<close> column.

  Ratings are binary floating point numbers in the program. They are modelled as exact
  rationals: the comparisons of the filter are between one-decimal values and the
  slider's multiples of 0.5, where both agree.
\<close>

record movie =
  movieId :: "int option"
  title :: "string option"
  year :: "int option"
  genres :: "string option"
  avg_rating :: "rat option"
  overview :: "string option"
  genres_list :: "string list option"

text \<open>A row of \<open>ratings.csv\<close>: the two columns the program reads.\<close>

record rating_row =
  r_movieId :: "int option"
  rating :: "rat option"

section \<open>The embedded sample catalog\<close>

text \<open>
  \<open>MOCK_MOVIES\<close> (lines 21 to 35), as the rows of \<open>pd.DataFrame(MOCK_MOVIES)\<close>:
  the columns title, year, genres, avg_rating and overview.
\<close>

definition MOCK_MOVIES :: "movie list" where
  "MOCK_MOVIES =
    [\<lparr>movieId = None, title = Some ''The Dark Knight'',
      year = Some 2008, genres = Some ''Action|Crime|Drama'',
      avg_rating = Some 9.0,
      overview = Some
       (''When the menace known as the Joker wreaks havoc and chaos on the '' @
        ''people of Gotham, Batman must accept one of the greatest '' @
        ''psychological and physical tests of his ability to fight '' @
        ''injustice.''),
      genres_list = None\<rparr>,
     \<lparr>movieId = None, title = Some ''Inception'',
      year = Some 2010, genres = Some ''Action|Adventure|Sci-Fi'',
      avg_rating = Some 8.8,
      overview = Some
       (''A thief who steals corporate secrets through the use of '' @
        ''dream-sharing technology is given the inverse task of planting an '' @
        ''idea into the mind of a C.E.O.''),
      genres_list = None\<rparr>,
     \<lparr>movieId = None, title = Some ''Interstellar'',
      year = Some 2014, genres = Some ''Adventure|Drama|Sci-Fi'',
      avg_rating = Some 8.6,
      overview = Some
       (''A team of explorers travel through a wormhole in space in an '' @
        ''attempt to ensure humanity's survival.''),
      genres_list = None\<rparr>,
     \<lparr>movieId = None, title = Some ''Parasite'',
      year = Some 2019, genres = Some ''Drama|Thriller'',
      avg_rating = Some 8.6,
      overview = Some
       (''Greed and class discrimination threaten the newly formed symbiotic '' @
        ''relationship between the wealthy Park family and the destitute Kim '' @
        ''clan.''),
      genres_list = None\<rparr>,
     \<lparr>movieId = None, title = Some ''Spirited Away'',
      year = Some 2001, genres = Some ''Animation|Adventure|Family'',
      avg_rating = Some 8.6,
      overview = Some
       (''During her family's move to the suburbs, a sullen 10-year-old girl '' @
        ''wanders into a world ruled by gods, witches, and spirits.''),
      genres_list = None\<rparr>,
     \<lparr>movieId = None, title = Some ''Pulp Fiction'',
      year = Some 1994, genres = Some ''Crime|Drama'',
      avg_rating = Some 8.9,
      overview = Some
       (''The lives of two mob hitmen, a boxer, a gangster and his wife, and '' @
        ''a pair of diner bandits intertwine in four tales of violence and '' @
        ''redemption.''),
      genres_list = None\<rparr>,
     \<lparr>movieId = None, title = Some ''The Matrix'',
      year = Some 1999, genres = Some ''Action|Sci-Fi'',
      avg_rating = Some 8.7,
      overview = Some
       (''When a beautiful stranger leads computer hacker Neo to a '' @
        ''forbidding underworld, he discovers the shocking truth--the life '' @
        ''he knows is the elaborate deception of an evil cyber-intelligence.''),
      genres_list = None\<rparr>,
     \<lparr>movieId = None, title = Some ''Forrest Gump'',
      year = Some 1994, genres = Some ''Drama|Romance'',
      avg_rating = Some 8.8,
      overview = Some
       (''The presidencies of Kennedy and Johnson, the events of Vietnam, '' @
        ''Watergate and other historical events unfold through the '' @
        ''perspective of an Alabama man with an IQ of 75.''),
      genres_list = None\<rparr>,
     \<lparr>movieId = None, title = Some ''Everything Everywhere All At Once'',
      year = Some 2022, genres = Some ''Action|Adventure|Comedy'',
      avg_rating = Some 8.0,
      overview = Some
       (''A middle-aged Chinese immigrant is swept up into an insane '' @
        ''adventure in which she alone can save the existence by exploring '' @
        ''other universes.''),
      genres_list = None\<rparr>,
     \<lparr>movieId = None, title = Some ''Dune'',
      year = Some 2021, genres = Some ''Action|Adventure|Sci-Fi'',
      avg_rating = Some 8.0,
      overview = Some
       (''A noble family becomes embroiled in a war for control over the '' @
        ''galaxy's most valuable asset while its heir becomes troubled by '' @
        ''visions of a dark future.''),
      genres_list = None\<rparr>,
     \<lparr>movieId = None, title = Some ''The Godfather'',
      year = Some 1972, genres = Some ''Crime|Drama'',
      avg_rating = Some 9.2,
      overview = Some
       (''The aging patriarch of an organized crime dynasty transfers '' @
        ''control of his clandestine empire to his reluctant son.''),
      genres_list = None\<rparr>,
     \<lparr>movieId = None, title = Some ''Schindler's List'',
      year = Some 1993, genres = Some ''Biography|Drama|History'',
      avg_rating = Some 8.9,
      overview = Some
       (''In German-occupied Poland during World War II, industrialist Oskar '' @
        ''Schindler gradually becomes concerned for his Jewish workforce '' @
        ''after witnessing their persecution by the Nazis.''),
      genres_list = None\<rparr>,
     \<lparr>movieId = None, title = Some ''Whiplash'',
      year = Some 2014, genres = Some ''Drama|Music'',
      avg_rating = Some 8.5,
      overview = Some
       (''A promising young drummer enrolls at a cut-throat music '' @
        ''conservatory where his dreams of greatness are mentored by an '' @
        ''instructor who will stop at nothing to realize a student's '' @
        ''potential.''),
      genres_list = None\<rparr>]"

section \<open>Splitting the genres string\<close>

text \<open>
  Python's \<open>s.split('|')\<close>, which pandas' \<open>.str.split('|')\<close> applies to every
  string cell (a separator of one character is taken literally): the string is cut
  at every separator, empty pieces are kept.
\<close>

fun split_acc :: "char \<Rightarrow> string \<Rightarrow> string \<Rightarrow> string list" where
  "split_acc sep acc [] = [rev acc]"
| "split_acc sep acc (c # cs) =
     (if c = sep then rev acc # split_acc sep [] cs else split_acc sep (c # acc) cs)"

definition str_split :: "char \<Rightarrow> string \<Rightarrow> string list" where
  "str_split sep s = split_acc sep [] s"

text \<open>
  \<open>df['genres_list'] = df['genres'].str.split('|')\<close> (lines 42 and 70): a missing
  cell stays missing.
\<close>

definition split_genres :: "movie list \<Rightarrow> movie list" where
  "split_genres df =
     map (\<lambda>m. m\<lparr>genres_list := map_option (str_split CHR ''|'') (genres m)\<rparr>) df"

section \<open>The loaders\<close>

text \<open>\<open>load_mock_data\<close> (lines 39 to 43).\<close>

definition load_mock_data :: "movie list" where
  "load_mock_data = split_genres MOCK_MOVIES"

text \<open>
  The exceptions of the fetch path: the \<open>ImportError\<close> that \<open>load_kaggle_data\<close>
  raises itself, and whatever the download or \<open>pd.read_csv\<close> raise (network,
  credentials, missing or malformed files). All of them are subclasses of
  \<open>Exception\<close>.
\<close>

datatype error = ImportError | FetchError

text \<open>
  \<open>movies.csv\<close> as \<open>pd.read_csv\<close> returns it: the dataset's columns movieId, title
  and genres, and an overview column or not (line 76 asks). The cells of the other
  fields of a row are overwritten by the loader before they are read.
\<close>

record movies_table =
  has_overview :: bool
  movie_rows :: "movie list"

text \<open>
  What is outside the program: whether \<open>kagglehub\<close> could be imported (lines 7 to
  11), and what the download and the two \<open>pd.read_csv\<close> calls return or raise.
\<close>

record kaggle_env =
  KAGGLE_AVAILABLE :: bool
  dataset_download :: "error + unit"
  movies_csv :: "error + movies_table"
  ratings_csv :: "error + rating_row list"

text \<open>
  Line 59, \<open>.str.extract(r'\((\d{4})\)')\<close>: the four digits of the leftmost
  occurrence of an opening parenthesis, four digits and a closing parenthesis; missing
  when there is none. Characters are bytes here, so \<open>\d\<close> is an ASCII digit.
\<close>

definition is_digit :: "char \<Rightarrow> bool" where
  "is_digit c = (c \<in> set ''0123456789'')"

fun extract_year :: "string \<Rightarrow> string option" where
  "extract_year (c # d1 # d2 # d3 # d4 # e # cs) =
     (if c = CHR ''('' \<and> is_digit d1 \<and> is_digit d2 \<and> is_digit d3 \<and> is_digit d4 \<and>
         e = CHR '')''
      then Some [d1, d2, d3, d4]
      else extract_year (d1 # d2 # d3 # d4 # e # cs))"
| "extract_year _ = None"

text \<open>
  Line 60, \<open>pd.to_numeric(..., errors='coerce')\<close>. Every string that reaches it is
  four decimal digits, which always parse, so nothing is coerced; a missing cell stays
  missing.
\<close>

definition digit_val :: "char \<Rightarrow> int" where
  "digit_val c = int (of_char c) - 48"

definition to_numeric :: "string option \<Rightarrow> int option" where
  "to_numeric c = map_option (foldl (\<lambda>a d. 10 * a + digit_val d) 0) c"

definition add_year :: "movie list \<Rightarrow> movie list" where
  "add_year movies =
     map (\<lambda>m. m\<lparr>year := to_numeric (Option.bind (title m) extract_year)\<rparr>) movies"

text \<open>
  Line 63, \<open>ratings.groupby('movieId')['rating'].mean().round(1)\<close>. A group is the
  rows of one movieId (rows with a missing movieId are in no group); its mean is over
  the ratings that are present, and missing when none is. The mean and the rounding
  are exact here, the rounding to the nearest tenth, a tie to the even one.
\<close>

definition mean :: "rat list \<Rightarrow> rat" where
  "mean xs = sum_list xs / of_nat (length xs)"

definition round_half_even :: "rat \<Rightarrow> int" where
  "round_half_even x =
     (let f = \<lfloor>x\<rfloor>; d = x - of_int f
      in if d < 1 / 2 then f else if 1 / 2 < d then f + 1
         else if even f then f else f + 1)"

definition round1 :: "rat \<Rightarrow> rat" where
  "round1 x = of_int (round_half_even (x * 10)) / 10"

definition group_ratings :: "rating_row list \<Rightarrow> int \<Rightarrow> rat list" where
  "group_ratings ratings k =
     List.map_filter rating (filter (\<lambda>r. r_movieId r = Some k) ratings)"

text \<open>
  The series of line 63, as a lookup: \<open>None\<close> when the movieId is no key of it,
  \<open>Some None\<close> when its mean is missing.
\<close>

definition avg_ratings :: "rating_row list \<Rightarrow> int \<Rightarrow> rat option option" where
  "avg_ratings ratings k =
     (if Some k \<in> set (map r_movieId ratings)
      then Some (case group_ratings ratings k of
                   [] \<Rightarrow> None
                 | r # rs \<Rightarrow> Some (round1 (mean (r # rs))))
      else None)"

text \<open>
  Lines 66 and 67, \<open>pd.merge(movies, avg_ratings, on='movieId')\<close> and the renaming
  of its rating column: an inner join, in the order of the movies.
\<close>

definition merge_on_movieId ::
  "movie list \<Rightarrow> (int \<Rightarrow> rat option option) \<Rightarrow> movie list" where
  "merge_on_movieId movies avg =
     List.map_filter
       (\<lambda>m. case movieId m of
               None \<Rightarrow> None
             | Some k \<Rightarrow> (case avg k of
                           None \<Rightarrow> None
                         | Some a \<Rightarrow> Some (m\<lparr>avg_rating := a\<rparr>)))
       movies"

text \<open>Line 73, \<open>df.dropna(subset=['year', 'avg_rating'])\<close>.\<close>

definition dropna :: "movie list \<Rightarrow> movie list" where
  "dropna df = filter (\<lambda>m. year m \<noteq> None \<and> avg_rating m \<noteq> None) df"

text \<open>Lines 76 and 77.\<close>

definition default_overview :: string where
  "default_overview = ''No plot summary available for this title.''"

definition add_overview :: "bool \<Rightarrow> movie list \<Rightarrow> movie list" where
  "add_overview overview_in_columns df =
     (if \<not> overview_in_columns
      then map (\<lambda>m. m\<lparr>overview := Some default_overview\<rparr>) df
      else df)"

text \<open>Lines 58 to 79, on the two tables read.\<close>

definition process_tables :: "movies_table \<Rightarrow> rating_row list \<Rightarrow> movie list" where
  "process_tables movies ratings =
     add_overview (has_overview movies)
       (dropna (split_genres
         (merge_on_movieId (add_year (movie_rows movies)) (avg_ratings ratings))))"

text \<open>\<open>load_kaggle_data\<close> (lines 46 to 79): an exception is the \<open>Inl\<close> result.\<close>

definition load_kaggle_data :: "kaggle_env \<Rightarrow> error + movie list" where
  "load_kaggle_data env =
     (if \<not> KAGGLE_AVAILABLE env then Inl ImportError
      else case dataset_download env of
        Inl e \<Rightarrow> Inl e
      | Inr _ \<Rightarrow>
          (case movies_csv env of
             Inl e \<Rightarrow> Inl e
           | Inr movies \<Rightarrow>
               (case ratings_csv env of
                  Inl e \<Rightarrow> Inl e
                | Inr ratings \<Rightarrow> Inr (process_tables movies ratings))))"

text \<open>
  Lines 101 to 112 of \<open>main\<close>: the catalog, and whether \<open>st.error\<close> showed the notice
  "Could not load Kaggle data. Switched to Demo Mode.".
\<close>

definition load_data :: "string \<Rightarrow> kaggle_env \<Rightarrow> movie list \<times> bool" where
  "load_data data_source env =
     (if data_source = ''Demo Data'' then (load_mock_data, False)
      else case load_kaggle_data env of
        Inr df \<Rightarrow> (df, False)
      | Inl e \<Rightarrow> (load_mock_data, True))"

text \<open>
  Lines 131 and 132, \<open>int(df['year'].min())\<close> and \<open>int(df['year'].max())\<close>: over the
  years that are present; \<open>None\<close> is the ValueError of \<open>int\<close> when none is.
\<close>

definition min_year :: "movie list \<Rightarrow> int option" where
  "min_year df =
     (case List.map_filter year df of [] \<Rightarrow> None | y # ys \<Rightarrow> Some (fold min ys y))"

definition max_year :: "movie list \<Rightarrow> int option" where
  "max_year df =
     (case List.map_filter year df of [] \<Rightarrow> None | y # ys \<Rightarrow> Some (fold max ys y))"

text \<open>The lowest value of the slider of line 128.\<close>

definition lowest_min_rating :: rat where
  "lowest_min_rating = 1.0"

section \<open>The filter of \<open>main\<close>\<close>

text \<open>Comparisons of a column with a number: a missing cell compares false.\<close>

definition cell_ge :: "'a::linorder option \<Rightarrow> 'a \<Rightarrow> bool" where
  "cell_ge c b = (case c of None \<Rightarrow> False | Some a \<Rightarrow> b \<le> a)"

definition cell_le :: "'a::linorder option \<Rightarrow> 'a \<Rightarrow> bool" where
  "cell_le c b = (case c of None \<Rightarrow> False | Some a \<Rightarrow> a \<le> b)"

text \<open>
  The lambda of line 145:
  \<open>selected_genre in x if isinstance(x, list) else False\<close>.
\<close>

definition genre_in :: "string \<Rightarrow> string list option \<Rightarrow> bool" where
  "genre_in selected_genre x =
     (case x of Some l \<Rightarrow> selected_genre \<in> set l | None \<Rightarrow> False)"

text \<open>Lines 137 to 146: the boolean mask, then the genre filter unless "Any" is chosen.\<close>

definition filter_movies ::
  "movie list \<Rightarrow> string \<Rightarrow> rat \<Rightarrow> int \<times> int \<Rightarrow> movie list" where
  "filter_movies df selected_genre min_rating selected_years =
     (let filtered_df =
            filter (\<lambda>m. cell_ge (avg_rating m) min_rating \<and>
                        cell_ge (year m) (fst selected_years) \<and>
                        cell_le (year m) (snd selected_years)) df
      in if selected_genre \<noteq> ''Any''
         then filter (\<lambda>m. genre_in selected_genre (genres_list m)) filtered_df
         else filtered_df)"

text \<open>
  The three conditions one at a time: the rating comparison of line 138, the two year
  comparisons of lines 139 and 140, and the genre step of lines 143 to 146.
\<close>

definition by_rating :: "rat \<Rightarrow> movie list \<Rightarrow> movie list" where
  "by_rating min_rating df = filter (\<lambda>m. cell_ge (avg_rating m) min_rating) df"

definition by_years :: "int \<times> int \<Rightarrow> movie list \<Rightarrow> movie list" where
  "by_years selected_years df =
     filter (\<lambda>m. cell_ge (year m) (fst selected_years) \<and>
                 cell_le (year m) (snd selected_years)) df"

definition by_genre :: "string \<Rightarrow> movie list \<Rightarrow> movie list" where
  "by_genre selected_genre df =
     (if selected_genre \<noteq> ''Any''
      then filter (\<lambda>m. genre_in selected_genre (genres_list m)) df
      else df)"

text \<open>
  The variables of \<open>main\<close> that lines 137 to 146 read and write, and the block as a
  step on them.
\<close>

record main_vars =
  v_df :: "movie list"
  v_selected_genre :: string
  v_min_rating :: rat
  v_selected_years :: "int \<times> int"
  v_filtered_df :: "movie list"

definition filtering_logic :: "main_vars \<Rightarrow> main_vars" where
  "filtering_logic v =
     v\<lparr>v_filtered_df :=
         filter_movies (v_df v) (v_selected_genre v) (v_min_rating v) (v_selected_years v)\<rparr>"

section \<open>The selection of \<open>main\<close>\<close>

text \<open>
  Lines 157 to 163, the handler of the button: the session state before, the position
  that \<open>sample(1)\<close> draws (the generator's number, reduced to a position of the
  frame), the session state after and whether \<open>st.warning\<close> showed "No movies found!".
\<close>

record session_state =
  selected_movie :: "movie option"

definition randomize_movie ::
  "movie list \<Rightarrow> nat \<Rightarrow> session_state \<Rightarrow> session_state \<times> bool" where
  "randomize_movie filtered_df draw st =
     (if filtered_df \<noteq> []
      then (st\<lparr>selected_movie := Some (filtered_df ! (draw mod length filtered_df))\<rparr>,
            False)
      else (st\<lparr>selected_movie := None\<rparr>, True))"

section \<open>The three predicates, as the specification words them\<close>

definition rating_pred :: "rat \<Rightarrow> movie \<Rightarrow> bool" where
  "rating_pred min_rating m = (\<exists>a. avg_rating m = Some a \<and> min_rating \<le> a)"

definition year_pred :: "int \<times> int \<Rightarrow> movie \<Rightarrow> bool" where
  "year_pred yr m = (\<exists>y. year m = Some y \<and> fst yr \<le> y \<and> y \<le> snd yr)"

definition genre_pred :: "string \<Rightarrow> movie \<Rightarrow> bool" where
  "genre_pred g m = (g = ''Any'' \<or> (\<exists>l. genres_list m = Some l \<and> g \<in> set l))"

section \<open>Concrete inputs\<close>

text \<open>A row of \<open>movies.csv\<close> with its three columns filled.\<close>

definition raw_movie :: "int \<Rightarrow> string \<Rightarrow> string \<Rightarrow> movie" where
  "raw_movie k t g =
     \<lparr>movieId = Some k, title = Some t, year = None, genres = Some g,
      avg_rating = None, overview = None, genres_list = None\<rparr>"



text \<open>Two movies of different years, the first with the single rating 0.5.\<close>

definition low_rated_env :: kaggle_env where
  "low_rated_env =
     \<lparr>KAGGLE_AVAILABLE = True, dataset_download = Inr (),
      movies_csv = Inr \<lparr>has_overview = False, movie_rows =
        [raw_movie 1 ''Toy Story (1995)'' ''Action|Comedy'',
         raw_movie 2 ''Fargo (1996)'' ''Crime'']\<rparr>,
      ratings_csv = Inr
        [\<lparr>r_movieId = Some 1, rating = Some 0.5\<rparr>,
         \<lparr>r_movieId = Some 2, rating = Some 4\<rparr>]\<rparr>"

definition low_rated_catalog :: "movie list" where
  "low_rated_catalog =
     [\<lparr>movieId = Some 1, title = Some ''Toy Story (1995)'', year = Some 1995,
       genres = Some ''Action|Comedy'', avg_rating = Some 0.5,
       overview = Some ''No plot summary available for this title.'',
       genres_list = Some [''Action'', ''Comedy'']\<rparr>,
      \<lparr>movieId = Some 2, title = Some ''Fargo (1996)'', year = Some 1996,
       genres = Some ''Crime'', avg_rating = Some 4.0,
       overview = Some ''No plot summary available for this title.'',
       genres_list = Some [''Crime'']\<rparr>]"



text \<open>The download fails.\<close>

definition failing_env :: kaggle_env where
  "failing_env =
     \<lparr>KAGGLE_AVAILABLE = True, dataset_download = Inl FetchError,
      movies_csv = Inl FetchError, ratings_csv = Inl FetchError\<rparr>"

definition the_godfather :: movie where
  "the_godfather = load_mock_data ! 10"

section \<open>Properties of the filter\<close>

lemma cell_ge_iff: "cell_ge c b \<longleftrightarrow> (\<exists>a. c = Some a \<and> b \<le> a)"
  by (cases c) (simp_all add: cell_ge_def)

lemma cell_le_iff: "cell_le c b \<longleftrightarrow> (\<exists>a. c = Some a \<and> a \<le> b)"
  by (cases c) (simp_all add: cell_le_def)

lemma genre_in_iff: "genre_in g x \<longleftrightarrow> (\<exists>l. x = Some l \<and> g \<in> set l)"
  by (cases x) (simp_all add: genre_in_def)

lemma mask_iff:
  "cell_ge (avg_rating m) r \<and> cell_ge (year m) (fst yr) \<and> cell_le (year m) (snd yr)
     \<longleftrightarrow> rating_pred r m \<and> year_pred yr m"
  by (auto simp: cell_ge_iff cell_le_iff rating_pred_def year_pred_def)

lemma filter_movies_eq:
  "filter_movies df g r yr =
     filter (\<lambda>m. rating_pred r m \<and> year_pred yr m \<and> genre_pred g m) df"
proof (cases "g = ''Any''")
  case True
  then show ?thesis
    by (simp add: filter_movies_def mask_iff genre_pred_def)
next
  case False
  have "filter_movies df g r yr =
          filter (\<lambda>m. genre_in g (genres_list m))
            (filter (\<lambda>m. rating_pred r m \<and> year_pred yr m) df)"
    using False by (simp add: filter_movies_def mask_iff)
  also have "\<dots> = filter (\<lambda>m. rating_pred r m \<and> year_pred yr m \<and> genre_pred g m) df"
    using False by (auto simp: genre_in_iff genre_pred_def intro: filter_cong)
  finally show ?thesis .
qed

lemma by_steps:
  "by_rating r df = filter (rating_pred r) df"
  "by_years yr df = filter (year_pred yr) df"
  "by_genre g df = filter (genre_pred g) df"
proof -
  show "by_rating r df = filter (rating_pred r) df"
    unfolding by_rating_def
    by (rule filter_cong) (auto simp: cell_ge_iff rating_pred_def)
  show "by_years yr df = filter (year_pred yr) df"
    unfolding by_years_def
    by (rule filter_cong) (auto simp: cell_ge_iff cell_le_iff year_pred_def)
  show "by_genre g df = filter (genre_pred g) df"
    unfolding by_genre_def
    by (auto simp: genre_in_iff genre_pred_def intro: filter_cong)
qed

section \<open>Properties of the loaders\<close>

lemma set_map_filter: "set (List.map_filter f xs) = {y. \<exists>x \<in> set xs. f x = Some y}"
  by (induction xs) (auto simp: List.map_filter_simps split: option.splits)

text \<open>A row of the join is a row of \<open>movies.csv\<close> with its year and its mean rating.\<close>

lemma merged_row:
  assumes "m1 \<in> set (merge_on_movieId (add_year rows) avg)"
  shows "\<exists>m0 k a. m0 \<in> set rows \<and> movieId m0 = Some k \<and> avg k = Some a \<and>
           m1 = m0\<lparr>year := to_numeric (Option.bind (title m0) extract_year),
                    avg_rating := a\<rparr>"
proof -
  from assms obtain x where x: "x \<in> set (add_year rows)"
    and fx: "(case movieId x of None \<Rightarrow> None
              | Some k \<Rightarrow> (case avg k of None \<Rightarrow> None
                           | Some a \<Rightarrow> Some (x\<lparr>avg_rating := a\<rparr>))) = Some m1"
    unfolding merge_on_movieId_def set_map_filter by blast
  from x obtain m0 where m0: "m0 \<in> set rows"
    and xm: "x = m0\<lparr>year := to_numeric (Option.bind (title m0) extract_year)\<rparr>"
    by (auto simp: add_year_def)
  from fx obtain k a where "movieId x = Some k" "avg k = Some a" "m1 = x\<lparr>avg_rating := a\<rparr>"
    by (auto split: option.splits)
  with m0 xm show ?thesis by auto
qed

text \<open>The shape of every row that \<open>load_kaggle_data\<close> returns.\<close>

lemma process_tables_row:
  assumes "m \<in> set (process_tables movies ratings)"
  shows "\<exists>m0 k a y. m0 \<in> set (movie_rows movies) \<and> movieId m0 = Some k \<and>
           avg_ratings ratings k = Some (Some a) \<and>
           to_numeric (Option.bind (title m0) extract_year) = Some y \<and>
           m = m0\<lparr>year := Some y, avg_rating := Some a,
                  genres_list := map_option (str_split CHR ''|'') (genres m0),
                  overview := (if has_overview movies then overview m0
                               else Some default_overview)\<rparr>"
proof -
  let ?merged = "merge_on_movieId (add_year (movie_rows movies)) (avg_ratings ratings)"
  let ?dropped = "dropna (split_genres ?merged)"
  from assms obtain m2 where m2: "m2 \<in> set ?dropped"
    and mm2: "m = (if has_overview movies then m2 else m2\<lparr>overview := Some default_overview\<rparr>)"
    by (auto simp: process_tables_def add_overview_def split: if_splits)
  from m2 obtain m1 where m1: "m1 \<in> set ?merged"
    and m2m1: "m2 = m1\<lparr>genres_list := map_option (str_split CHR ''|'') (genres m1)\<rparr>"
    and pres: "year m2 \<noteq> None" "avg_rating m2 \<noteq> None"
    by (auto simp: dropna_def split_genres_def)
  from merged_row [OF m1] obtain m0 k a0 where m0: "m0 \<in> set (movie_rows movies)"
    and k: "movieId m0 = Some k" and a0: "avg_ratings ratings k = Some a0"
    and m1m0: "m1 = m0\<lparr>year := to_numeric (Option.bind (title m0) extract_year),
                        avg_rating := a0\<rparr>"
    by blast
  from pres m2m1 m1m0 obtain y a
    where y: "to_numeric (Option.bind (title m0) extract_year) = Some y"
    and a: "a0 = Some a"
    by auto
  have "m = m0\<lparr>year := Some y, avg_rating := Some a,
                  genres_list := map_option (str_split CHR ''|'') (genres m0),
                  overview := (if has_overview movies then overview m0
                               else Some default_overview)\<rparr>"
    using mm2 m2m1 m1m0 y a by simp
  with m0 k a0 a y show ?thesis by blast
qed

lemma load_kaggle_data_Inr:
  "load_kaggle_data env = Inr df \<longleftrightarrow>
     KAGGLE_AVAILABLE env \<and> (\<exists>p movies ratings. dataset_download env = Inr p \<and>
       movies_csv env = Inr movies \<and> ratings_csv env = Inr ratings \<and>
       df = process_tables movies ratings)"
  by (auto simp: load_kaggle_data_def split: sum.splits)

lemma mock_cells:
  "\<forall>m \<in> set load_mock_data.
     year m \<noteq> None \<and> avg_rating m \<noteq> None \<and> overview m \<noteq> None"
  by (simp add: load_mock_data_def split_genres_def MOCK_MOVIES_def del: not_None_eq)

lemma mock_rating_ge:
  "\<forall>m \<in> set load_mock_data. cell_ge (avg_rating m) lowest_min_rating"
  by (simp add: load_mock_data_def split_genres_def MOCK_MOVIES_def cell_ge_def
      lowest_min_rating_def)

lemma load_data_cells:
  assumes "m \<in> set (fst (load_data data_source env))"
  shows "year m \<noteq> None \<and> avg_rating m \<noteq> None"
proof (cases "data_source \<noteq> ''Demo Data'' \<and> (\<exists>df. load_kaggle_data env = Inr df)")
  case True
  then obtain df where df: "load_kaggle_data env = Inr df" by blast
  with True assms have "m \<in> set df" by (simp add: load_data_def)
  with df obtain movies ratings where "m \<in> set (process_tables movies ratings)"
    by (auto simp: load_kaggle_data_Inr)
  from process_tables_row [OF this] show ?thesis by auto
next
  case False
  then have "fst (load_data data_source env) = load_mock_data"
    by (auto simp: load_data_def split: sum.splits)
  with assms mock_cells show ?thesis by simp
qed


section \<open>The year bounds\<close>

lemma fold_min_le: "fold min ys (y::int) \<le> y \<and> (\<forall>x \<in> set ys. fold min ys y \<le> x)"
proof (induction ys arbitrary: y)
  case Nil show ?case by simp
next
  case (Cons z zs)
  from Cons.IH [of "min z y"] show ?case by auto
qed

lemma fold_max_ge: "y \<le> fold max ys (y::int) \<and> (\<forall>x \<in> set ys. x \<le> fold max ys y)"
proof (induction ys arbitrary: y)
  case Nil show ?case by simp
next
  case (Cons z zs)
  from Cons.IH [of "max z y"] show ?case by auto
qed

lemma min_year_le:
  assumes "min_year df = Some lo" "m \<in> set df" "year m = Some y"
  shows "lo \<le> y"
proof -
  from assms(2,3) have "y \<in> set (List.map_filter year df)"
    by (auto simp: set_map_filter)
  with assms(1) fold_min_le show ?thesis
    by (auto simp: min_year_def split: list.splits)
qed

lemma max_year_ge:
  assumes "max_year df = Some hi" "m \<in> set df" "year m = Some y"
  shows "y \<le> hi"
proof -
  from assms(2,3) have "y \<in> set (List.map_filter year df)"
    by (auto simp: set_map_filter)
  with assms(1) fold_max_ge show ?thesis
    by (auto simp: max_year_def split: list.splits)
qed

section \<open>The claims\<close>

text \<open>
  C1. For every catalog and every filter (genre choice, minimum rating, inclusive year
  range), the filtered output is exactly the records of the catalog, in their order,
  whose rating is present and at least the minimum, whose year is present and within
  the range, and for which the genre choice is "Any" or a member of the genre list: every
  record of the output meets the three predicates, and no record failing one appears.
\<close>

theorem filter_output_meets_predicates:
  "filter_movies df g r yr =
     filter (\<lambda>m. rating_pred r m \<and> year_pred yr m \<and> genre_pred g m) df"
  by (rule filter_movies_eq)

text \<open>
  On the embedded catalog: the 1972 record rated 9.2 and tagged Crime|Drama is the
  output for Crime, 9.0 and 1970 to 1980; for Comedy the output is empty.
\<close>

theorem filter_output_meets_predicates_witness:
  "filter_movies load_mock_data ''Crime'' 9.0 (1970, 1980) =
     filter (\<lambda>m. rating_pred 9.0 m \<and> year_pred (1970, 1980) m \<and> genre_pred ''Crime'' m)
       load_mock_data
   \<and> map title (filter_movies load_mock_data ''Crime'' 9.0 (1970, 1980)) =
       [Some ''The Godfather'']
   \<and> filter_movies load_mock_data ''Comedy'' 9.0 (1970, 1980) = []"
proof -
  have "map title (filter_movies load_mock_data ''Crime'' 9.0 (1970, 1980)) =
       [Some ''The Godfather'']"
    by code_simp
  moreover have "filter_movies load_mock_data ''Comedy'' 9.0 (1970, 1980) = []"
    by code_simp
  ultimately show ?thesis
    using filter_output_meets_predicates [of load_mock_data "''Crime''" "9.0" "(1970, 1980)"]
    by simp
qed

text \<open>
  C2, as stated, fails: the lowest value of the rating slider is 1.0, and a catalog
  loaded from the external dataset can hold a record rated lower. With genre "Any", the
  lowest rating and the full span of years 1995 to 1996, the record rated 0.5 is
  filtered out.
\<close>

theorem identity_filter_counterexample:
  "load_data ''Kaggle Dataset'' low_rated_env = (low_rated_catalog, False) \<and>
   min_year low_rated_catalog = Some 1995 \<and> max_year low_rated_catalog = Some 1996 \<and>
   map title (filter_movies low_rated_catalog ''Any'' lowest_min_rating (1995, 1996)) =
     [Some ''Fargo (1996)''] \<and>
   filter_movies low_rated_catalog ''Any'' lowest_min_rating (1995, 1996) \<noteq>
     low_rated_catalog"
  by code_simp

text \<open>
  C2, amended. For the catalog that \<open>main\<close> has loaded, filtering with genre "Any",
  the lowest value 1.0 of the rating slider and the span from the least to the greatest
  year present returns the catalog unchanged, provided every record is rated at least
  1.0.
\<close>

theorem identity_filter_amended:
  assumes "df = fst (load_data data_source env)"
    and "min_year df = Some lo" and "max_year df = Some hi"
    and "\<forall>m \<in> set df. cell_ge (avg_rating m) lowest_min_rating"
  shows "filter_movies df ''Any'' lowest_min_rating (lo, hi) = df"
proof -
  have "rating_pred lowest_min_rating m \<and> year_pred (lo, hi) m \<and> genre_pred ''Any'' m"
    if m: "m \<in> set df" for m
  proof -
    from m assms(1) load_data_cells obtain y where y: "year m = Some y" by blast
    from min_year_le [OF assms(2) m y] max_year_ge [OF assms(3) m y]
    have "year_pred (lo, hi) m" by (simp add: year_pred_def y)
    moreover from assms(4) m have "rating_pred lowest_min_rating m"
      by (auto simp: cell_ge_iff rating_pred_def)
    ultimately show ?thesis by (simp add: genre_pred_def)
  qed
  then show ?thesis
    by (simp add: filter_movies_eq)
qed

theorem identity_filter_amended_witness:
  "min_year load_mock_data = Some 1972 \<and> max_year load_mock_data = Some 2022 \<and>
   filter_movies load_mock_data ''Any'' lowest_min_rating (1972, 2022) = load_mock_data"
proof -
  have a: "load_mock_data = fst (load_data ''Demo Data'' failing_env)"
    by (simp add: load_data_def)
  have b: "min_year load_mock_data = Some 1972" by code_simp
  have c: "max_year load_mock_data = Some 2022" by code_simp
  from identity_filter_amended [OF a b c mock_rating_ge] b c show ?thesis by simp
qed

text \<open>
  C3. When the button is pressed on an empty filtered set, whatever the generator draws
  and whatever was selected before, the handler returns normally: the selection of the
  session is cleared (the empty signal, no record selected) and the warning is shown.
\<close>

theorem empty_selection_clears:
  "randomize_movie [] draw st = (st\<lparr>selected_movie := None\<rparr>, True) \<and>
   selected_movie (fst (randomize_movie [] draw st)) = None"
  by (simp add: randomize_movie_def)

theorem empty_selection_clears_witness:
  "selected_movie (fst (randomize_movie [] 7 \<lparr>selected_movie = Some the_godfather\<rparr>)) = None \<and>
   snd (randomize_movie [] 7 \<lparr>selected_movie = Some the_godfather\<rparr>)"
  using empty_selection_clears [of 7 "\<lparr>selected_movie = Some the_godfather\<rparr>"]
  by simp

text \<open>
  C4. When the external source is chosen and \<open>load_kaggle_data\<close> raises, whatever the
  exception, \<open>main\<close> goes on: its catalog is exactly what \<open>load_mock_data\<close> returns,
  and the notice is shown.
\<close>

theorem fetch_failure_falls_back:
  assumes "data_source \<noteq> ''Demo Data''" and "load_kaggle_data env = Inl e"
  shows "load_data data_source env = (load_mock_data, True)"
  using assms by (simp add: load_data_def)

theorem fetch_failure_falls_back_witness:
  "load_kaggle_data failing_env = Inl FetchError \<and>
   load_data ''Kaggle Dataset'' failing_env = (load_mock_data, True)"
proof -
  have a: "''Kaggle Dataset'' \<noteq> ''Demo Data''" by simp
  have b: "load_kaggle_data failing_env = Inl FetchError"
    by (simp add: load_kaggle_data_def failing_env_def)
  from fetch_failure_falls_back [OF a b] b show ?thesis by simp
qed





text \<open>
  C7. The rating condition, the year condition and the genre step, applied one after
  the other in any of the six orders, give what lines 137 to 146 compute; and the block
  writes \<open>filtered_df\<close> only: the catalog \<open>df\<close> is what it was.
\<close>

theorem filter_order_irrelevant:
  "filter_movies df g r yr = by_genre g (by_years yr (by_rating r df)) \<and>
   filter_movies df g r yr = by_genre g (by_rating r (by_years yr df)) \<and>
   filter_movies df g r yr = by_years yr (by_genre g (by_rating r df)) \<and>
   filter_movies df g r yr = by_years yr (by_rating r (by_genre g df)) \<and>
   filter_movies df g r yr = by_rating r (by_genre g (by_years yr df)) \<and>
   filter_movies df g r yr = by_rating r (by_years yr (by_genre g df)) \<and>
   v_df (filtering_logic v) = v_df v \<and>
   v_filtered_df (filtering_logic v) =
     filter_movies (v_df v) (v_selected_genre v) (v_min_rating v) (v_selected_years v)"
  by (simp add: filter_movies_eq by_steps filtering_logic_def conj_commute conj_left_commute)

theorem filter_order_irrelevant_witness:
  "map title (by_rating 9.0 (by_genre ''Crime'' (by_years (1970, 1980) load_mock_data))) =
     [Some ''The Godfather''] \<and>
   map title (by_genre ''Crime'' (by_years (1970, 1980) (by_rating 9.0 load_mock_data))) =
     [Some ''The Godfather'']"
proof -
  have "map title (filter_movies load_mock_data ''Crime'' 9.0 (1970, 1980)) =
       [Some ''The Godfather'']"
    by code_simp
  moreover
  from filter_order_irrelevant [of load_mock_data "''Crime''" "9.0" "(1970, 1980)"]
  have "filter_movies load_mock_data ''Crime'' 9.0 (1970, 1980) =
          by_rating 9.0 (by_genre ''Crime'' (by_years (1970, 1980) load_mock_data))"
    and "filter_movies load_mock_data ''Crime'' 9.0 (1970, 1980) =
          by_genre ''Crime'' (by_years (1970, 1980) (by_rating 9.0 load_mock_data))"
    by blast+
  ultimately show ?thesis by simp
qed






end
